theory Spec2Isabelle
  imports Main
begin

section \<open>Backend protocols of magicgui (widgets/_protocols.py)\<close>

text \<open>
  The module declares ten protocol classes and one abstract base class. Nothing in it
  computes on widget data: what it fixes is which members each class declares, which
  classes it extends, which classes carry the \<open>runtime_checkable\<close> decorator, what the
  body of each method does when nothing overrides it, and the two accessors of the
  \<open>orientation\<close> property. The model below is that table, together with the parts of the
  Python object model the declarations rely on (attribute lookup, the instance check of
  protocols, abstract-method bookkeeping, argument binding, set membership).
\<close>

subsection \<open>Exceptions and values\<close>

datatype exc = TypeError | ValueError | NotImplementedError | AttributeError | IndexError

text \<open>
  Python values as far as the module handles them. \<open>PList\<close> stands for the unhashable
  values (lists, dicts), \<open>PCallable\<close> for a function object identified by a number.
\<close>

datatype pyval =
    PNone
  | PBool bool
  | PInt int
  | PStr string
  | PList "pyval list"
  | PCallable nat

subsection \<open>Members and protocol classes\<close>

text \<open>Every name declared in the body of some protocol class, in source order.\<close>

datatype member =
    mgui_show_widget
  | mgui_hide_widget
  | mgui_get_enabled
  | mgui_set_enabled
  | mgui_get_parent
  | mgui_set_parent
  | mgui_get_native_widget
  | mgui_bind_parent_change_callback
  | mgui_render
  | mgui_get_value
  | mgui_set_value
  | mgui_bind_change_callback
  | mgui_get_minimum
  | mgui_set_minimum
  | mgui_get_maximum
  | mgui_set_maximum
  | mgui_get_step
  | mgui_set_step
  | mgui_get_choices
  | mgui_set_choices
  | mgui_set_text
  | mgui_get_text
  | orientation
  | mgui_set_orientation
  | mgui_get_orientation
  | mgui_add_widget
  | mgui_insert_widget
  | mgui_remove_widget
  | mgui_remove_index
  | mgui_count
  | mgui_index
  | mgui_get_index
  | mgui_get_native_layout
  | mgui_get_margins
  | mgui_set_margins

datatype protocol =
    WidgetProtocol
  | ValueWidgetProtocol
  | RangedWidgetProtocol
  | SupportsChoices
  | CategoricalWidgetProtocol
  | SupportsText
  | ButtonWidgetProtocol
  | SupportsOrientation
  | SliderWidgetProtocol
  | ContainerProtocol

text \<open>
  What a class body binds a name to: a method under \<open>@abstractmethod\<close> whose body is
  \<open>raise NotImplementedError()\<close>, a method under \<open>@abstractmethod\<close> whose body is only
  a docstring, or a \<open>property\<close> object.
\<close>

datatype decl = AbstractRaising | AbstractDocOnly | Property

text \<open>The class bodies, one entry per \<open>def\<close>, in source order.\<close>

fun declares :: "protocol \<Rightarrow> (member \<times> decl) list" where
  "declares WidgetProtocol =
     [(mgui_show_widget, AbstractRaising),
      (mgui_hide_widget, AbstractRaising),
      (mgui_get_enabled, AbstractRaising),
      (mgui_set_enabled, AbstractRaising),
      (mgui_get_parent, AbstractRaising),
      (mgui_set_parent, AbstractRaising),
      (mgui_get_native_widget, AbstractRaising),
      (mgui_bind_parent_change_callback, AbstractRaising),
      (mgui_render, AbstractRaising)]"
| "declares ValueWidgetProtocol =
     [(mgui_get_value, AbstractRaising),
      (mgui_set_value, AbstractRaising),
      (mgui_bind_change_callback, AbstractRaising)]"
| "declares RangedWidgetProtocol =
     [(mgui_get_minimum, AbstractRaising),
      (mgui_set_minimum, AbstractRaising),
      (mgui_get_maximum, AbstractRaising),
      (mgui_set_maximum, AbstractRaising),
      (mgui_get_step, AbstractRaising),
      (mgui_set_step, AbstractRaising)]"
| "declares SupportsChoices =
     [(mgui_get_choices, AbstractRaising),
      (mgui_set_choices, AbstractRaising)]"
| "declares CategoricalWidgetProtocol = []"
| "declares SupportsText =
     [(mgui_set_text, AbstractRaising),
      (mgui_get_text, AbstractRaising)]"
| "declares ButtonWidgetProtocol = []"
| "declares SupportsOrientation =
     [(orientation, Property),
      (mgui_set_orientation, AbstractRaising),
      (mgui_get_orientation, AbstractRaising)]"
| "declares SliderWidgetProtocol = []"
| "declares ContainerProtocol =
     [(mgui_add_widget, AbstractRaising),
      (mgui_insert_widget, AbstractRaising),
      (mgui_remove_widget, AbstractRaising),
      (mgui_remove_index, AbstractRaising),
      (mgui_count, AbstractRaising),
      (mgui_index, AbstractRaising),
      (mgui_get_index, AbstractRaising),
      (mgui_get_native_layout, AbstractRaising),
      (mgui_get_margins, AbstractRaising),
      (mgui_set_margins, AbstractRaising)]"

text \<open>The protocol bases in each class statement (\<open>Protocol\<close> itself left out).\<close>

fun bases :: "protocol \<Rightarrow> protocol list" where
  "bases WidgetProtocol = []"
| "bases ValueWidgetProtocol = [WidgetProtocol]"
| "bases RangedWidgetProtocol = [ValueWidgetProtocol]"
| "bases SupportsChoices = []"
| "bases CategoricalWidgetProtocol = [ValueWidgetProtocol, SupportsChoices]"
| "bases SupportsText = []"
| "bases ButtonWidgetProtocol = [ValueWidgetProtocol, SupportsText]"
| "bases SupportsOrientation = []"
| "bases SliderWidgetProtocol = [RangedWidgetProtocol, SupportsOrientation]"
| "bases ContainerProtocol = [WidgetProtocol, SupportsOrientation]"

text \<open>
  Whether the class statement stands under \<open>@runtime_checkable\<close>. Every protocol of the
  module does, except \<open>ContainerProtocol\<close>.
\<close>

fun decorated :: "protocol \<Rightarrow> bool" where
  "decorated ContainerProtocol = False"
| "decorated _ = True"

text \<open>
  The classes attribute lookup walks through, the class itself first. Every class of the
  module has a linear ancestry up to one capability mixin, so the method resolution order
  is the class, its first base with that base's ancestors, then the mixin.
\<close>

fun depth :: "protocol \<Rightarrow> nat" where
  "depth WidgetProtocol = 0"
| "depth SupportsChoices = 0"
| "depth SupportsText = 0"
| "depth SupportsOrientation = 0"
| "depth ValueWidgetProtocol = 1"
| "depth RangedWidgetProtocol = 2"
| "depth CategoricalWidgetProtocol = 2"
| "depth ButtonWidgetProtocol = 2"
| "depth ContainerProtocol = 1"
| "depth SliderWidgetProtocol = 3"

function mro :: "protocol \<Rightarrow> protocol list" where
  "mro p = p # concat (map mro (bases p))"
  by pat_completeness auto
termination
proof (relation "measure depth")
  show "wf (measure depth)" by simp
next
  fix p b
  assume "b \<in> set (bases p)"
  then show "(b, p) \<in> measure depth" by (cases p) auto
qed

declare mro.simps [simp del]

text \<open>
  \<open>_get_protocol_attrs\<close>: the names found in the class dictionaries along the resolution
  order.
\<close>

definition protocol_attrs :: "protocol \<Rightarrow> member list" where
  "protocol_attrs p = concat (map (\<lambda>c. map fst (declares c)) (mro p))"

text \<open>
  The decorator stores \<open>_is_runtime_protocol = True\<close> on the class it is applied to, and
  the instance check reads the flag with \<open>getattr(cls, '_is_runtime_protocol', False)\<close>,
  that is by attribute lookup along the resolution order: an undecorated protocol finds
  the flag of the first decorated ancestor.
\<close>

definition is_runtime_protocol :: "protocol \<Rightarrow> bool" where
  "is_runtime_protocol p = (case find decorated (mro p) of Some _ \<Rightarrow> True | None \<Rightarrow> False)"

subsection \<open>Objects and the instance check\<close>

datatype attr = Absent | BoundNone | Bound

text \<open>
  An object as the instance check sees it: the protocol classes its class lists among its
  bases, the protocols whose \<open>register\<close> was called with its class, and for each name
  what attribute lookup on the object finds. \<open>Absent\<close> is a failing lookup,
  \<open>BoundNone\<close> an attribute set to \<open>None\<close> (the idiom that blocks a method), \<open>Bound\<close>
  any other value.
\<close>

record pyobject =
  declared :: "protocol list"
  registered :: "protocol list"
  attrs :: "member \<Rightarrow> attr"

text \<open>
  The exit through \<open>ABCMeta\<close>: the protocol is in the resolution order of the object's
  class, or the class was registered with the protocol or with a protocol extending it.
\<close>

definition nominal :: "pyobject \<Rightarrow> protocol \<Rightarrow> bool" where
  "nominal obj p = list_ex (\<lambda>d. p \<in> set (mro d)) (declared obj @ registered obj)"

text \<open>
  \<open>__non_callable_proto_members__\<close>: the decorator computes, for the class it is applied
  to, the protocol attributes that are not callable on the class (here: the property).
  The check reads the set by attribute lookup, so an undecorated protocol finds the set of
  its first decorated ancestor.
\<close>

definition non_callable_proto_members :: "protocol \<Rightarrow> member list" where
  "non_callable_proto_members p =
     (case find decorated (mro p) of
        None \<Rightarrow> []
      | Some c \<Rightarrow>
          map fst (filter (\<lambda>(m, d). d = Property) (concat (map declares (mro c)))))"

text \<open>
  One step of the attribute walk: the attribute must be found, and a value of \<open>None\<close>
  passes only for a recorded non-callable member.
\<close>

definition member_ok :: "protocol \<Rightarrow> pyobject \<Rightarrow> member \<Rightarrow> bool" where
  "member_ok p obj m =
     (case attrs obj m of
        Absent \<Rightarrow> False
      | BoundNone \<Rightarrow> m \<in> set (non_callable_proto_members p)
      | Bound \<Rightarrow> True)"

text \<open>
  \<open>isinstance(obj, p)\<close>: a \<open>TypeError\<close> unless the protocol is a runtime protocol;
  otherwise true through the \<open>ABCMeta\<close> exit, or when the walk over the protocol
  attributes finds every one of them.
\<close>

definition isinstance :: "pyobject \<Rightarrow> protocol \<Rightarrow> exc + bool" where
  "isinstance obj p =
     (if \<not> is_runtime_protocol p then Inl TypeError
      else Inr (nominal obj p \<or> list_all (member_ok p obj) (protocol_attrs p)))"

text \<open>An object implements a method when the attribute is there and is not \<open>None\<close>.\<close>

definition implements :: "pyobject \<Rightarrow> member \<Rightarrow> bool" where
  "implements obj m = (attrs obj m = Bound)"

text \<open>
  The abstract operations a protocol asks of a backend: its abstract methods. No protocol
  of the module overrides a method it inherits, so this is also the
  \<open>__abstractmethods__\<close> of the protocol class.
\<close>

definition abstract_operations :: "protocol \<Rightarrow> member list" where
  "abstract_operations p =
     map fst (filter (\<lambda>(m, d). d \<noteq> Property) (concat (map declares (mro p))))"

text \<open>
  The object of a class without protocol bases and without registration, on which exactly
  the listed names are bound.
\<close>

definition object_with :: "member list \<Rightarrow> pyobject" where
  "object_with ms =
     \<lparr>declared = [], registered = [],
      attrs = (\<lambda>m. if m \<in> set ms then Bound else Absent)\<rparr>"

text \<open>The seven protocols of the component design.\<close>

definition component_protocols :: "protocol list" where
  "component_protocols =
     [WidgetProtocol, ValueWidgetProtocol, RangedWidgetProtocol, CategoricalWidgetProtocol,
      ButtonWidgetProtocol, SliderWidgetProtocol, ContainerProtocol]"

subsection \<open>Method bodies\<close>

text \<open>
  What calling a class-body entry does once its arguments are bound: the raising bodies
  raise, a body that is only a docstring falls off its end and returns \<open>None\<close>, and a
  \<open>property\<close> object is not callable.
\<close>

fun call_body :: "decl \<Rightarrow> exc + pyval" where
  "call_body AbstractRaising = Inl NotImplementedError"
| "call_body AbstractDocOnly = Inr PNone"
| "call_body Property = Inl TypeError"

text \<open>
  Calling the function found on a protocol class itself, as \<open>super()\<close> in an overriding
  method does.
\<close>

definition call_on_protocol :: "protocol \<Rightarrow> member \<Rightarrow> exc + pyval" where
  "call_on_protocol p m =
     (case map_of (concat (map declares (mro p))) m of
        Some d \<Rightarrow> call_body d
      | None \<Rightarrow> Inl AttributeError)"

subsection \<open>The orientation property of SupportsOrientation\<close>

text \<open>
  \<open>value not in {"horizontal", "vertical"}\<close> hashes \<open>value\<close> first: an unhashable
  value makes the membership test itself raise \<open>TypeError\<close>.
\<close>

fun hashable :: "pyval \<Rightarrow> bool" where
  "hashable (PList _) = False"
| "hashable _ = True"

definition set_contains :: "pyval list \<Rightarrow> pyval \<Rightarrow> exc + bool" where
  "set_contains xs v = (if hashable v then Inr (v \<in> set xs) else Inl TypeError)"

text \<open>
  The two methods a backend supplies, over a backend state \<open>'s\<close>. Either may raise and
  either may change the state.
\<close>

record 's orientation_backend =
  get_orientation_impl :: "'s \<Rightarrow> (exc + pyval) \<times> 's"
  set_orientation_impl :: "pyval \<Rightarrow> 's \<Rightarrow> (exc + pyval) \<times> 's"

text \<open>A call of a backend method, with its arguments, as recorded in a trace.\<close>

datatype call = Call member "pyval list"

text \<open>
  The property's getter and setter. Each returns the outcome, the backend calls it made,
  and the state afterwards.
\<close>

definition orientation_fget ::
  "'s orientation_backend \<Rightarrow> 's \<Rightarrow> (exc + pyval) \<times> call list \<times> 's" where
  "orientation_fget b s =
     (let (r, s') = get_orientation_impl b s
      in (r, [Call mgui_get_orientation []], s'))"

definition orientation_fset ::
  "'s orientation_backend \<Rightarrow> pyval \<Rightarrow> 's \<Rightarrow> (exc + pyval) \<times> call list \<times> 's" where
  "orientation_fset b v s =
     (case set_contains [PStr ''horizontal'', PStr ''vertical''] v of
        Inl e \<Rightarrow> (Inl e, [], s)
      | Inr False \<Rightarrow> (Inl ValueError, [], s)
      | Inr True \<Rightarrow>
          (let (r, s') = set_orientation_impl b v s
           in (case r of
                 Inl e \<Rightarrow> (Inl e, [Call mgui_set_orientation [v]], s')
               | Inr _ \<Rightarrow> (Inr PNone, [Call mgui_set_orientation [v]], s'))))"

text \<open>A backend that keeps the orientation in its state, and one that always answers \<open>x\<close>.\<close>

definition storing_backend :: "pyval orientation_backend" where
  "storing_backend =
     \<lparr>get_orientation_impl = (\<lambda>s. (Inr s, s)),
      set_orientation_impl = (\<lambda>v s. (Inr PNone, v))\<rparr>"

definition answering_backend :: "pyval \<Rightarrow> unit orientation_backend" where
  "answering_backend x =
     \<lparr>get_orientation_impl = (\<lambda>s. (Inr x, s)),
      set_orientation_impl = (\<lambda>v s. (Inr PNone, s))\<rparr>"

subsection \<open>BaseApplicationBackend\<close>

text \<open>
  The names a class derived from \<open>BaseApplicationBackend\<close> may define: the seven of the
  base class, and any other name.
\<close>

datatype app_method =
    mgui_get_backend_name
  | mgui_process_events
  | mgui_run
  | mgui_quit
  | mgui_get_native_app
  | mgui_start_timer
  | mgui_stop_timer
  | other_method string

text \<open>
  An entry of a class namespace: whether the function carries \<open>@abstractmethod\<close>, and
  the outcome of its body once the arguments are bound.
\<close>

datatype method_def = MethodDef (is_abstract: bool) (outcome: "exc + pyval")

type_synonym app_namespace = "(app_method \<times> method_def) list"

text \<open>The body of the base class: seven abstract methods, each with a docstring only.\<close>

definition BaseApplicationBackend :: app_namespace where
  "BaseApplicationBackend =
     [(mgui_get_backend_name, MethodDef True (call_body AbstractDocOnly)),
      (mgui_process_events, MethodDef True (call_body AbstractDocOnly)),
      (mgui_run, MethodDef True (call_body AbstractDocOnly)),
      (mgui_quit, MethodDef True (call_body AbstractDocOnly)),
      (mgui_get_native_app, MethodDef True (call_body AbstractDocOnly)),
      (mgui_start_timer, MethodDef True (call_body AbstractDocOnly)),
      (mgui_stop_timer, MethodDef True (call_body AbstractDocOnly))]"

text \<open>
  A class is given by the namespaces along its resolution order, its own first and that
  of the root class last. \<open>ABCMeta\<close> computes \<open>__abstractmethods__\<close> when the class is
  created: the names its own namespace defines as abstract, and the abstract names of its
  base that it does not define itself.
\<close>

fun abstractmethods :: "app_namespace list \<Rightarrow> app_method list" where
  "abstractmethods [] = []"
| "abstractmethods (ns # rest) =
     map fst (filter (\<lambda>(n, d). is_abstract d) ns)
     @ filter (\<lambda>n. map_of ns n = None) (abstractmethods rest)"

text \<open>Creating an instance: refused with \<open>TypeError\<close> while an abstract name is left.\<close>

definition instantiate :: "app_namespace list \<Rightarrow> exc + app_namespace list" where
  "instantiate cls = (if abstractmethods cls = [] then Inr cls else Inl TypeError)"

text \<open>Calling a method by name: the first definition along the resolution order runs.\<close>

fun invoke_app :: "app_namespace list \<Rightarrow> app_method \<Rightarrow> exc + pyval" where
  "invoke_app [] n = Inl AttributeError"
| "invoke_app (ns # rest) n =
     (case map_of ns n of
        Some d \<Rightarrow> outcome d
      | None \<Rightarrow> invoke_app rest n)"

text \<open>
  Calling the function found on \<open>BaseApplicationBackend\<close> itself, as \<open>super()\<close> in an
  overriding method does.
\<close>

definition call_on_backend_base :: "app_method \<Rightarrow> exc + pyval" where
  "call_on_backend_base n = invoke_app [BaseApplicationBackend] n"

text \<open>\<open>Cls().method(...)\<close>: the instance is created first, then the method is called.\<close>

definition construct_and_call_app :: "app_namespace list \<Rightarrow> app_method \<Rightarrow> exc + pyval" where
  "construct_and_call_app cls n =
     (case instantiate cls of
        Inl e \<Rightarrow> Inl e
      | Inr obj \<Rightarrow> invoke_app obj n)"

text \<open>The namespace of a subclass that defines all seven methods, none of them abstract.\<close>

definition complete_backend :: app_namespace where
  "complete_backend =
     map (\<lambda>(n, d). (n, MethodDef False (Inr PNone))) BaseApplicationBackend"

subsection \<open>Backend classes that list protocols among their bases\<close>

text \<open>
  A name in the namespace of a backend class is bound to a function or set to \<open>None\<close>.
\<close>

datatype binding = Function method_def | NoneValue

text \<open>
  A backend class: the protocols among its bases, the protocols it was registered with,
  and the names it defines itself. The protocol classes have \<open>ABCMeta\<close> for (a base of)
  their metaclass and every protocol method is under \<open>@abstractmethod\<close>, so the class
  gets an \<open>__abstractmethods__\<close> as a subclass of \<open>BaseApplicationBackend\<close> does: the
  names it defines as abstract, and the abstract names of its bases it does not define.
\<close>

record backend_class =
  class_bases :: "protocol list"
  registered_with :: "protocol list"
  class_namespace :: "(member \<times> binding) list"

fun abstract_binding :: "binding \<Rightarrow> bool" where
  "abstract_binding (Function d) = is_abstract d"
| "abstract_binding NoneValue = False"

definition class_abstractmethods :: "backend_class \<Rightarrow> member list" where
  "class_abstractmethods c =
     map fst (filter (\<lambda>(m, b). abstract_binding b) (class_namespace c))
     @ filter (\<lambda>m. map_of (class_namespace c) m = None)
         (concat (map abstract_operations (class_bases c)))"

definition instantiate_class :: "backend_class \<Rightarrow> exc + backend_class" where
  "instantiate_class c = (if class_abstractmethods c = [] then Inr c else Inl TypeError)"

text \<open>
  Calling a method on an object of the class: the class's own entry first (calling
  \<open>None\<close> is a \<open>TypeError\<close>), then the first entry along the resolution orders of the
  bases; a name found nowhere is an \<open>AttributeError\<close>.
\<close>

definition call_method :: "backend_class \<Rightarrow> member \<Rightarrow> exc + pyval" where
  "call_method c m =
     (case map_of (class_namespace c) m of
        Some (Function d) \<Rightarrow> outcome d
      | Some NoneValue \<Rightarrow> Inl TypeError
      | None \<Rightarrow>
          (case map_of (concat (map declares (concat (map mro (class_bases c))))) m of
             Some d \<Rightarrow> call_body d
           | None \<Rightarrow> Inl AttributeError))"

text \<open>\<open>Cls().method(...)\<close>: the instance is created first, then the method is called.\<close>

definition construct_and_call :: "backend_class \<Rightarrow> member \<Rightarrow> exc + pyval" where
  "construct_and_call c m =
     (case instantiate_class c of
        Inl e \<Rightarrow> Inl e
      | Inr obj \<Rightarrow> call_method obj m)"


text \<open>A namespace that defines the listed names as ordinary methods returning \<open>None\<close>.\<close>

definition defining :: "member list \<Rightarrow> (member \<times> binding) list" where
  "defining ms = map (\<lambda>m. (m, Function (MethodDef False (Inr PNone)))) ms"




subsection \<open>Binding the arguments of the timer start\<close>

text \<open>
  A signature lists the parameters after \<open>self\<close>, each with its default if it has one.
  A call gives positional arguments and keyword arguments; binding fails with
  \<open>TypeError\<close> on too many positional arguments, an unknown keyword, a parameter given
  twice, or a parameter without default left unbound.
\<close>

type_synonym signature = "(string \<times> pyval option) list"

definition mgui_start_timer_signature :: signature where
  "mgui_start_timer_signature =
     [(''interval'', Some (PInt 0)),
      (''on_timeout'', Some PNone),
      (''single'', Some (PBool False))]"

fun bind_positional :: "signature \<Rightarrow> pyval list \<Rightarrow> exc + (string \<times> pyval) list" where
  "bind_positional ps [] = Inr []"
| "bind_positional [] (a # as) = Inl TypeError"
| "bind_positional ((n, d) # ps) (a # as) =
     (case bind_positional ps as of
        Inl e \<Rightarrow> Inl e
      | Inr bound \<Rightarrow> Inr ((n, a) # bound))"

fun bind_keywords ::
  "signature \<Rightarrow> (string \<times> pyval) list \<Rightarrow> (string \<times> pyval) list \<Rightarrow> exc + (string \<times> pyval) list" where
  "bind_keywords ps bound [] = Inr bound"
| "bind_keywords ps bound ((k, v) # kws) =
     (if k \<notin> fst ` set ps then Inl TypeError
      else if k \<in> fst ` set bound then Inl TypeError
      else bind_keywords ps (bound @ [(k, v)]) kws)"

fun fill_defaults :: "signature \<Rightarrow> (string \<times> pyval) list \<Rightarrow> exc + (string \<times> pyval) list" where
  "fill_defaults [] bound = Inr []"
| "fill_defaults ((n, d) # ps) bound =
     (case (map_of bound n, d) of
        (Some v, _) \<Rightarrow> map_sum id ((#) (n, v)) (fill_defaults ps bound)
      | (None, Some v) \<Rightarrow> map_sum id ((#) (n, v)) (fill_defaults ps bound)
      | (None, None) \<Rightarrow> Inl TypeError)"

definition bind_arguments ::
  "signature \<Rightarrow> pyval list \<Rightarrow> (string \<times> pyval) list \<Rightarrow> exc + (string \<times> pyval) list" where
  "bind_arguments ps args kws =
     (case bind_positional ps args of
        Inl e \<Rightarrow> Inl e
      | Inr bound \<Rightarrow>
          (case bind_keywords ps bound kws of
             Inl e \<Rightarrow> Inl e
           | Inr bound' \<Rightarrow> fill_defaults ps bound'))"

text \<open>
  Calling the base class's \<open>_mgui_start_timer\<close>: the arguments are bound, then the
  docstring-only body returns \<open>None\<close>.
\<close>

definition base_mgui_start_timer :: "pyval list \<Rightarrow> (string \<times> pyval) list \<Rightarrow> exc + pyval" where
  "base_mgui_start_timer args kws =
     (case bind_arguments mgui_start_timer_signature args kws of
        Inl e \<Rightarrow> Inl e
      | Inr _ \<Rightarrow> call_body AbstractDocOnly)"

subsection \<open>Children of a container\<close>

text \<open>
  Modelled from the spec: the container backend (\<open>Container\<close> of
  \<open>backends/_qtpy/widgets.py\<close>) is not among the sources; the protocol only declares
  \<open>_mgui_get_index\<close> and \<open>_mgui_remove_index\<close> as abstract. Following section 4.7, a
  container holds an ordered sequence of children at positions \<open>[0, count)\<close>;
  get-by-index returns null out of range, remove-by-index fails with an out-of-range
  error and removes the child at the position otherwise.
\<close>

definition container_get_index :: "'w list \<Rightarrow> int \<Rightarrow> exc + 'w option" where
  "container_get_index children i =
     (if 0 \<le> i \<and> i < int (length children) then Inr (Some (children ! nat i))
      else Inr None)"

definition container_remove_index :: "'w list \<Rightarrow> int \<Rightarrow> (exc + unit) \<times> 'w list" where
  "container_remove_index children i =
     (if 0 \<le> i \<and> i < int (length children)
      then (Inr (), take (nat i) children @ drop (Suc (nat i)) children)
      else (Inl IndexError, children))"

section \<open>Properties\<close>

subsection \<open>Resolution orders, members and the instance check\<close>

lemma mro_simps:
  "mro WidgetProtocol = [WidgetProtocol]"
  "mro ValueWidgetProtocol = [ValueWidgetProtocol, WidgetProtocol]"
  "mro RangedWidgetProtocol = [RangedWidgetProtocol, ValueWidgetProtocol, WidgetProtocol]"
  "mro SupportsChoices = [SupportsChoices]"
  "mro CategoricalWidgetProtocol =
     [CategoricalWidgetProtocol, ValueWidgetProtocol, WidgetProtocol, SupportsChoices]"
  "mro SupportsText = [SupportsText]"
  "mro ButtonWidgetProtocol =
     [ButtonWidgetProtocol, ValueWidgetProtocol, WidgetProtocol, SupportsText]"
  "mro SupportsOrientation = [SupportsOrientation]"
  "mro SliderWidgetProtocol =
     [SliderWidgetProtocol, RangedWidgetProtocol, ValueWidgetProtocol, WidgetProtocol,
      SupportsOrientation]"
  "mro ContainerProtocol = [ContainerProtocol, WidgetProtocol, SupportsOrientation]"
  by (simp_all add: mro.simps)

lemma every_protocol_is_runtime: "is_runtime_protocol p"
  by (cases p) (simp_all add: is_runtime_protocol_def mro_simps)

lemma non_callable_simps:
  "non_callable_proto_members p =
     (if p = SupportsOrientation \<or> p = SliderWidgetProtocol then [orientation] else [])"
  by (cases p) (simp_all add: non_callable_proto_members_def mro_simps)

lemma orientation_member_iff:
  "orientation \<in> set (protocol_attrs p) \<longleftrightarrow> SupportsOrientation \<in> set (mro p)"
  by (cases p) (auto simp: protocol_attrs_def mro_simps)

lemma member_ok_iff:
  assumes "m \<in> set (protocol_attrs p)"
  shows "member_ok p obj m =
    (if m = orientation \<and> p \<noteq> ContainerProtocol then attrs obj m \<noteq> Absent
     else implements obj m)"
proof (cases "m = orientation")
  case True
  with assms have "SupportsOrientation \<in> set (mro p)"
    by (simp add: orientation_member_iff)
  then have "p = SupportsOrientation \<or> p = SliderWidgetProtocol \<or> p = ContainerProtocol"
    by (cases p) (simp_all add: mro_simps)
  with True show ?thesis
    by (cases "attrs obj m")
      (auto simp: member_ok_def implements_def non_callable_simps)
next
  case False
  then show ?thesis
    by (cases "attrs obj m")
      (auto simp: member_ok_def implements_def non_callable_simps)
qed

lemma isinstance_iff:
  "isinstance obj p = Inr True \<longleftrightarrow>
     nominal obj p \<or>
     (\<forall>m\<in>set (protocol_attrs p).
        if m = orientation \<and> p \<noteq> ContainerProtocol then attrs obj m \<noteq> Absent
        else implements obj m)"
  by (simp add: isinstance_def every_protocol_is_runtime list_all_iff member_ok_iff)


lemma isinstance_never_raises: "isinstance obj p \<noteq> Inl e"
  by (simp add: isinstance_def every_protocol_is_runtime)




lemma abstract_operations_eq:
  "set (abstract_operations p) = set (protocol_attrs p) - {orientation}"
  by (cases p) (auto simp: abstract_operations_def protocol_attrs_def mro_simps)

lemma mro_trans:
  assumes "p \<in> set (mro d)" and "q \<in> set (mro p)"
  shows "q \<in> set (mro d)"
  using assms by (cases d; cases p) (auto simp: mro_simps)

lemma attrs_mono:
  assumes "q \<in> set (mro p)"
  shows "set (protocol_attrs q) \<subseteq> set (protocol_attrs p)"
  using assms by (cases p) (auto simp: protocol_attrs_def mro_simps)

lemma nominal_mono:
  assumes "q \<in> set (mro p)" and "nominal obj p"
  shows "nominal obj q"
  using assms unfolding nominal_def list_ex_iff by (blast intro: mro_trans)

lemma isinstance_mono:
  assumes q: "q \<in> set (mro p)"
    and p: "isinstance obj p = Inr True"
  shows "isinstance obj q = Inr True"
proof (cases "nominal obj p")
  case True
  with q have "nominal obj q" by (rule nominal_mono)
  then show ?thesis by (simp add: isinstance_iff)
next
  case False
  have container: "q = ContainerProtocol \<longrightarrow> p = ContainerProtocol"
    using q by (cases p) (auto simp: mro_simps)
  from False p have all: "\<forall>m\<in>set (protocol_attrs p).
        if m = orientation \<and> p \<noteq> ContainerProtocol then attrs obj m \<noteq> Absent
        else implements obj m"
    by (simp add: isinstance_iff)
  have "\<forall>m\<in>set (protocol_attrs q).
        if m = orientation \<and> q \<noteq> ContainerProtocol then attrs obj m \<noteq> Absent
        else implements obj m"
  proof
    fix m assume "m \<in> set (protocol_attrs q)"
    with attrs_mono [OF q] have "m \<in> set (protocol_attrs p)" by blast
    with all have "if m = orientation \<and> p \<noteq> ContainerProtocol then attrs obj m \<noteq> Absent
        else implements obj m" by blast
    with container
    show "if m = orientation \<and> q \<noteq> ContainerProtocol then attrs obj m \<noteq> Absent
        else implements obj m"
      by (auto simp: implements_def split: if_splits)
  qed
  then show ?thesis by (simp add: isinstance_iff)
qed


lemma isinstance_object_with_attrs:
  "isinstance (object_with (protocol_attrs p)) p = Inr True"
  unfolding isinstance_iff by (simp add: object_with_def implements_def)

subsection \<open>The base widget contract\<close>




subsection \<open>Conformance to the ranged protocol\<close>




subsection \<open>Composition of capabilities\<close>

text \<open>
  Claim C6. Every instance of \<open>SliderWidgetProtocol\<close> is an instance of
  \<open>RangedWidgetProtocol\<close>, \<open>ValueWidgetProtocol\<close>, \<open>WidgetProtocol\<close> and
  \<open>SupportsOrientation\<close>; every instance of \<open>ButtonWidgetProtocol\<close> is an instance of
  \<open>ValueWidgetProtocol\<close> and \<open>SupportsText\<close>; every instance of
  \<open>CategoricalWidgetProtocol\<close> is an instance of \<open>ValueWidgetProtocol\<close> and
  \<open>SupportsChoices\<close>.
\<close>

theorem capability_composition:
  "(isinstance obj SliderWidgetProtocol = Inr True \<longrightarrow>
      isinstance obj RangedWidgetProtocol = Inr True
      \<and> isinstance obj ValueWidgetProtocol = Inr True
      \<and> isinstance obj WidgetProtocol = Inr True
      \<and> isinstance obj SupportsOrientation = Inr True)
   \<and> (isinstance obj ButtonWidgetProtocol = Inr True \<longrightarrow>
      isinstance obj ValueWidgetProtocol = Inr True
      \<and> isinstance obj SupportsText = Inr True)
   \<and> (isinstance obj CategoricalWidgetProtocol = Inr True \<longrightarrow>
      isinstance obj ValueWidgetProtocol = Inr True
      \<and> isinstance obj SupportsChoices = Inr True)"
proof (intro conjI impI)
  assume s: "isinstance obj SliderWidgetProtocol = Inr True"
  show "isinstance obj RangedWidgetProtocol = Inr True"
    by (rule isinstance_mono [OF _ s]) (simp add: mro_simps)
  show "isinstance obj ValueWidgetProtocol = Inr True"
    by (rule isinstance_mono [OF _ s]) (simp add: mro_simps)
  show "isinstance obj WidgetProtocol = Inr True"
    by (rule isinstance_mono [OF _ s]) (simp add: mro_simps)
  show "isinstance obj SupportsOrientation = Inr True"
    by (rule isinstance_mono [OF _ s]) (simp add: mro_simps)
next
  assume b: "isinstance obj ButtonWidgetProtocol = Inr True"
  show "isinstance obj ValueWidgetProtocol = Inr True"
    by (rule isinstance_mono [OF _ b]) (simp add: mro_simps)
  show "isinstance obj SupportsText = Inr True"
    by (rule isinstance_mono [OF _ b]) (simp add: mro_simps)
next
  assume c: "isinstance obj CategoricalWidgetProtocol = Inr True"
  show "isinstance obj ValueWidgetProtocol = Inr True"
    by (rule isinstance_mono [OF _ c]) (simp add: mro_simps)
  show "isinstance obj SupportsChoices = Inr True"
    by (rule isinstance_mono [OF _ c]) (simp add: mro_simps)
qed

theorem capability_composition_witness:
  "isinstance (object_with (protocol_attrs SliderWidgetProtocol)) SliderWidgetProtocol = Inr True
   \<and> isinstance (object_with (protocol_attrs SliderWidgetProtocol)) RangedWidgetProtocol = Inr True
   \<and> isinstance (object_with (protocol_attrs SliderWidgetProtocol)) SupportsOrientation = Inr True
   \<and> isinstance (object_with (protocol_attrs ButtonWidgetProtocol)) ButtonWidgetProtocol = Inr True
   \<and> isinstance (object_with (protocol_attrs ButtonWidgetProtocol)) SupportsText = Inr True
   \<and> isinstance (object_with (protocol_attrs CategoricalWidgetProtocol)) CategoricalWidgetProtocol = Inr True
   \<and> isinstance (object_with (protocol_attrs CategoricalWidgetProtocol)) SupportsChoices = Inr True"
  using capability_composition [of "object_with (protocol_attrs SliderWidgetProtocol)"]
    capability_composition [of "object_with (protocol_attrs ButtonWidgetProtocol)"]
    capability_composition [of "object_with (protocol_attrs CategoricalWidgetProtocol)"]
    isinstance_object_with_attrs [of SliderWidgetProtocol]
    isinstance_object_with_attrs [of ButtonWidgetProtocol]
    isinstance_object_with_attrs [of CategoricalWidgetProtocol]
  by blast

subsection \<open>Discovering conformance at run time\<close>

text \<open>
  Claim C1 as stated fails for a slider backend written against the abstract operations
  alone: the object below implements every abstract operation of \<open>SliderWidgetProtocol\<close>,
  yet the check answers false, because \<open>orientation\<close>, which \<open>SupportsOrientation\<close>
  declares as a property, is a protocol member too and the object has no such attribute.
\<close>

theorem methods_only_slider_not_recognised:
  "SliderWidgetProtocol \<in> set component_protocols
   \<and> list_all (implements (object_with (abstract_operations SliderWidgetProtocol)))
        (abstract_operations SliderWidgetProtocol)
   \<and> isinstance (object_with (abstract_operations SliderWidgetProtocol))
        SliderWidgetProtocol = Inr False"
  by (simp add: component_protocols_def abstract_operations_def isinstance_def
      every_protocol_is_runtime protocol_attrs_def member_ok_def nominal_def
      implements_def object_with_def mro_simps)

text \<open>
  Claim C1, amended. For each protocol of the component design that is declared under
  \<open>@runtime_checkable\<close> (all but \<open>ContainerProtocol\<close>), the instance check never raises,
  and it is true of every object that implements all abstract operations of the protocol
  and, where the protocol extends \<open>SupportsOrientation\<close>, also has the \<open>orientation\<close>
  attribute that class declares.
\<close>

theorem conformance_discoverable:
  assumes "p \<in> set component_protocols" and "decorated p"
  shows "(\<forall>e. isinstance obj p \<noteq> Inl e)
    \<and> ((\<forall>m\<in>set (abstract_operations p). implements obj m)
         \<and> (SupportsOrientation \<in> set (mro p) \<longrightarrow> attrs obj orientation \<noteq> Absent)
       \<longrightarrow> isinstance obj p = Inr True)"
proof (intro conjI allI impI)
  fix e show "isinstance obj p \<noteq> Inl e" by (rule isinstance_never_raises)
next
  assume h: "(\<forall>m\<in>set (abstract_operations p). implements obj m)
         \<and> (SupportsOrientation \<in> set (mro p) \<longrightarrow> attrs obj orientation \<noteq> Absent)"
  from assms(2) have not_container: "p \<noteq> ContainerProtocol" by auto
  have "\<forall>m\<in>set (protocol_attrs p).
      if m = orientation \<and> p \<noteq> ContainerProtocol then attrs obj m \<noteq> Absent
      else implements obj m"
  proof
    fix m assume m: "m \<in> set (protocol_attrs p)"
    show "if m = orientation \<and> p \<noteq> ContainerProtocol then attrs obj m \<noteq> Absent
      else implements obj m"
    proof (cases "m = orientation")
      case True
      with m h not_container show ?thesis by (simp add: orientation_member_iff)
    next
      case False
      with m have "m \<in> set (abstract_operations p)" by (simp add: abstract_operations_eq)
      with h False show ?thesis by simp
    qed
  qed
  then show "isinstance obj p = Inr True" by (simp add: isinstance_iff)
qed

theorem conformance_discoverable_witness:
  "SliderWidgetProtocol \<in> set component_protocols
   \<and> decorated SliderWidgetProtocol
   \<and> isinstance (object_with (protocol_attrs SliderWidgetProtocol)) SliderWidgetProtocol
       = Inr True
   \<and> isinstance (object_with (abstract_operations WidgetProtocol)) WidgetProtocol = Inr True"
proof -
  have c: "SliderWidgetProtocol \<in> set component_protocols"
    and w: "WidgetProtocol \<in> set component_protocols"
    by (simp_all add: component_protocols_def)
  have dc: "decorated SliderWidgetProtocol" and dw: "decorated WidgetProtocol"
    by simp_all
  have 1: "\<forall>m\<in>set (abstract_operations SliderWidgetProtocol).
      implements (object_with (protocol_attrs SliderWidgetProtocol)) m"
    by (simp add: abstract_operations_eq implements_def object_with_def)
  have 2: "attrs (object_with (protocol_attrs SliderWidgetProtocol)) orientation \<noteq> Absent"
    by (simp add: object_with_def protocol_attrs_def mro_simps)
  have 3: "\<forall>m\<in>set (abstract_operations WidgetProtocol).
      implements (object_with (abstract_operations WidgetProtocol)) m"
    by (simp add: implements_def object_with_def)
  have 4: "SupportsOrientation \<notin> set (mro WidgetProtocol)"
    by (simp add: mro_simps)
  show ?thesis
    using conformance_discoverable [OF c dc, of "object_with (protocol_attrs SliderWidgetProtocol)"]
      conformance_discoverable [OF w dw, of "object_with (abstract_operations WidgetProtocol)"]
      c 1 2 3 4
    by simp
qed

subsection \<open>Assigning the orientation\<close>

lemma set_contains_orientations:
  "set_contains [PStr ''horizontal'', PStr ''vertical''] v =
     (if hashable v then Inr (v = PStr ''horizontal'' \<or> v = PStr ''vertical'')
      else Inl TypeError)"
  by (simp add: set_contains_def)

text \<open>
  Claim C2 as stated fails for an unhashable value: assigning the list
  \<open>["horizontal"]\<close>, which is neither of the two strings, is rejected with \<open>TypeError\<close>
  by the membership test, not with \<open>ValueError\<close>. The setter is not called and the
  stored orientation stays what it was.
\<close>

theorem unhashable_orientation_is_type_error:
  "PList [PStr ''horizontal''] \<noteq> PStr ''horizontal''
   \<and> PList [PStr ''horizontal''] \<noteq> PStr ''vertical''
   \<and> orientation_fset storing_backend (PList [PStr ''horizontal'']) (PStr ''vertical'')
       = (Inl TypeError, [], PStr ''vertical'')"
  by (simp add: orientation_fset_def set_contains_def)

text \<open>
  Claim C2, amended. Assigning a hashable value that is neither \<open>"horizontal"\<close> nor
  \<open>"vertical"\<close> raises \<open>ValueError\<close>; assigning an unhashable value raises \<open>TypeError\<close>.
  In both cases \<open>_mgui_set_orientation\<close> is not called and the state is unchanged.
  Assigning one of the two strings calls \<open>_mgui_set_orientation\<close> exactly once, with that
  value, and the outcome and the state afterwards are those of that call.
\<close>

theorem orientation_assignment:
  "(hashable v \<and> v \<noteq> PStr ''horizontal'' \<and> v \<noteq> PStr ''vertical''
      \<longrightarrow> orientation_fset b v s = (Inl ValueError, [], s))
   \<and> (\<not> hashable v \<longrightarrow> orientation_fset b v s = (Inl TypeError, [], s))
   \<and> (v = PStr ''horizontal'' \<or> v = PStr ''vertical''
      \<longrightarrow> fst (snd (orientation_fset b v s)) = [Call mgui_set_orientation [v]]
        \<and> snd (snd (orientation_fset b v s)) = snd (set_orientation_impl b v s)
        \<and> fst (orientation_fset b v s) =
            (case fst (set_orientation_impl b v s) of Inl e \<Rightarrow> Inl e | Inr r \<Rightarrow> Inr PNone))"
proof (intro conjI impI)
  assume "hashable v \<and> v \<noteq> PStr ''horizontal'' \<and> v \<noteq> PStr ''vertical''"
  then show "orientation_fset b v s = (Inl ValueError, [], s)"
    by (simp add: orientation_fset_def set_contains_orientations)
next
  assume "\<not> hashable v"
  then show "orientation_fset b v s = (Inl TypeError, [], s)"
    by (simp add: orientation_fset_def set_contains_orientations)
next
  assume v: "v = PStr ''horizontal'' \<or> v = PStr ''vertical''"
  then have h: "set_contains [PStr ''horizontal'', PStr ''vertical''] v = Inr True"
    by (auto simp: set_contains_def)
  obtain r s' where rs: "set_orientation_impl b v s = (r, s')"
    by (cases "set_orientation_impl b v s")
  show "fst (snd (orientation_fset b v s)) = [Call mgui_set_orientation [v]]"
    using h rs by (cases r) (simp_all add: orientation_fset_def)
  show "snd (snd (orientation_fset b v s)) = snd (set_orientation_impl b v s)"
    using h rs by (cases r) (simp_all add: orientation_fset_def)
  show "fst (orientation_fset b v s) =
      (case fst (set_orientation_impl b v s) of Inl e \<Rightarrow> Inl e | Inr r \<Rightarrow> Inr PNone)"
    using h rs by (cases r) (simp_all add: orientation_fset_def)
qed

theorem orientation_assignment_witness:
  "orientation_fset storing_backend (PStr ''diagonal'') (PStr ''horizontal'')
     = (Inl ValueError, [], PStr ''horizontal'')
   \<and> orientation_fset storing_backend (PInt 3) (PStr ''horizontal'')
     = (Inl ValueError, [], PStr ''horizontal'')
   \<and> orientation_fset storing_backend (PList []) (PStr ''horizontal'')
     = (Inl TypeError, [], PStr ''horizontal'')
   \<and> fst (snd (orientation_fset storing_backend (PStr ''vertical'') (PStr ''horizontal'')))
     = [Call mgui_set_orientation [PStr ''vertical'']]
   \<and> snd (snd (orientation_fset storing_backend (PStr ''vertical'') (PStr ''horizontal'')))
     = PStr ''vertical''"
  using orientation_assignment [of "PStr ''diagonal''" storing_backend "PStr ''horizontal''"]
    orientation_assignment [of "PInt 3" storing_backend "PStr ''horizontal''"]
    orientation_assignment [of "PList []" storing_backend "PStr ''horizontal''"]
    orientation_assignment [of "PStr ''vertical''" storing_backend "PStr ''horizontal''"]
  by (simp add: storing_backend_def)

subsection \<open>Reading the orientation\<close>

text \<open>
  Claim C9. Reading the property calls \<open>_mgui_get_orientation\<close> once and hands back its
  outcome and the state it leaves, whatever they are: no membership test is made, so a
  backend that answers a value outside the two orientations has that value returned, and
  the read raises only what the backend's getter raises.
\<close>

theorem orientation_read_delegates:
  "fst (orientation_fget b s) = fst (get_orientation_impl b s)
   \<and> fst (snd (orientation_fget b s)) = [Call mgui_get_orientation []]
   \<and> snd (snd (orientation_fget b s)) = snd (get_orientation_impl b s)
   \<and> fst (orientation_fget (answering_backend x) u) = Inr x"
  by (simp add: orientation_fget_def answering_backend_def split: prod.split)

subsection \<open>Starting a timer\<close>

text \<open>
  Claim C8. \<open>_mgui_start_timer\<close> takes \<open>interval\<close>, \<open>on_timeout\<close> and \<open>single\<close>, with
  defaults \<open>0\<close>, \<open>None\<close> and \<open>False\<close>: a call without arguments binds the defaults,
  arguments given by position or by keyword take their place, and the call with interval
  \<open>0\<close> and \<open>single=True\<close> binds without error.
\<close>

theorem start_timer_signature:
  "bind_arguments mgui_start_timer_signature [] [] =
     Inr [(''interval'', PInt 0), (''on_timeout'', PNone), (''single'', PBool False)]
   \<and> bind_arguments mgui_start_timer_signature [i, f, s] [] =
     Inr [(''interval'', i), (''on_timeout'', f), (''single'', s)]
   \<and> bind_arguments mgui_start_timer_signature []
        [(''interval'', i), (''on_timeout'', f), (''single'', s)] =
     Inr [(''interval'', i), (''on_timeout'', f), (''single'', s)]
   \<and> bind_arguments mgui_start_timer_signature [PInt 0] [(''single'', PBool True)] =
     Inr [(''interval'', PInt 0), (''on_timeout'', PNone), (''single'', PBool True)]
   \<and> base_mgui_start_timer [PInt 0] [(''single'', PBool True)] = Inr PNone"
  by (simp add: bind_arguments_def base_mgui_start_timer_def mgui_start_timer_signature_def)

subsection \<open>Abstract methods of the application backend\<close>

lemma base_names:
  "fst ` set BaseApplicationBackend =
     {mgui_get_backend_name, mgui_process_events, mgui_run, mgui_quit, mgui_get_native_app,
      mgui_start_timer, mgui_stop_timer}"
  by (auto simp: BaseApplicationBackend_def)

lemma base_abstractmethods:
  "set (abstractmethods [BaseApplicationBackend]) = fst ` set BaseApplicationBackend"
  by (auto simp: BaseApplicationBackend_def)

lemma abstract_stays_abstract:
  assumes "n \<in> set (abstractmethods base)"
    and "\<forall>ns\<in>set subs. map_of ns n = None"
  shows "n \<in> set (abstractmethods (subs @ base))"
  using assms(2)
proof (induction subs)
  case Nil
  from assms(1) show ?case by simp
next
  case (Cons ns subs)
  then have "n \<in> set (abstractmethods (subs @ base))" and "map_of ns n = None"
    by simp_all
  then show ?case by simp
qed

lemma omitted_method_blocks_instantiation:
  assumes "n \<in> fst ` set BaseApplicationBackend"
    and "\<forall>ns\<in>set subs. map_of ns n = None"
  shows "instantiate (subs @ [BaseApplicationBackend]) = Inl TypeError"
proof -
  from assms(1) have "n \<in> set (abstractmethods [BaseApplicationBackend])"
    by (simp only: base_abstractmethods)
  from abstract_stays_abstract [OF this assms(2)]
  have "abstractmethods (subs @ [BaseApplicationBackend]) \<noteq> []" by auto
  then show ?thesis by (simp add: instantiate_def)
qed

lemma base_method_returns_none:
  assumes "n \<in> fst ` set BaseApplicationBackend"
  shows "invoke_app [BaseApplicationBackend] n = Inr PNone"
  using assms unfolding base_names by (auto simp: BaseApplicationBackend_def)

text \<open>
  Claim C10. \<open>BaseApplicationBackend\<close> cannot be instantiated, and neither can a class
  derived from it (through any chain of subclasses) in which one of the seven methods is
  defined nowhere along the chain: creating the instance fails with \<open>TypeError\<close>. A
  subclass that defines all seven is instantiated.
\<close>

theorem application_backend_is_abstract:
  "length BaseApplicationBackend = 7
   \<and> instantiate [BaseApplicationBackend] = Inl TypeError
   \<and> (n \<in> fst ` set BaseApplicationBackend \<and> (\<forall>ns\<in>set subs. map_of ns n = None)
        \<longrightarrow> instantiate (subs @ [BaseApplicationBackend]) = Inl TypeError)
   \<and> instantiate [complete_backend, BaseApplicationBackend]
        = Inr [complete_backend, BaseApplicationBackend]"
proof (intro conjI impI)
  show "length BaseApplicationBackend = 7" by (simp add: BaseApplicationBackend_def)
  show "instantiate [BaseApplicationBackend] = Inl TypeError"
    by (simp add: instantiate_def BaseApplicationBackend_def)
  show "instantiate [complete_backend, BaseApplicationBackend]
        = Inr [complete_backend, BaseApplicationBackend]"
    by (simp add: instantiate_def complete_backend_def BaseApplicationBackend_def)
next
  assume "n \<in> fst ` set BaseApplicationBackend \<and> (\<forall>ns\<in>set subs. map_of ns n = None)"
  then show "instantiate (subs @ [BaseApplicationBackend]) = Inl TypeError"
    using omitted_method_blocks_instantiation by blast
qed

theorem application_backend_is_abstract_witness:
  "instantiate
     [[(mgui_quit, MethodDef False (Inr PNone))],
      [(mgui_run, MethodDef False (Inr PNone)),
       (mgui_get_backend_name, MethodDef False (Inr (PStr ''qt'')))],
      BaseApplicationBackend] = Inl TypeError"
proof -
  let ?subs = "[[(mgui_quit, MethodDef False (Inr PNone))],
      [(mgui_run, MethodDef False (Inr PNone)),
       (mgui_get_backend_name, MethodDef False (Inr (PStr ''qt'')))]]"
  have 1: "mgui_stop_timer \<in> fst ` set BaseApplicationBackend"
    by (simp add: base_names)
  have 2: "\<forall>ns\<in>set ?subs. map_of ns mgui_stop_timer = None"
    by simp
  from application_backend_is_abstract [of mgui_stop_timer ?subs] 1 2
  show ?thesis by simp
qed

subsection \<open>Indices out of range in a container\<close>

lemma container_scenario:
  "container_remove_index [''A'', ''B'', ''C''] 1 = (Inr (), [''A'', ''C''])
   \<and> container_get_index [''A'', ''C''] 1 = Inr (Some ''C'')"
  by (simp add: container_get_index_def container_remove_index_def)

text \<open>
  Claim C5. For an index outside \<open>[0, count)\<close>, get-by-index returns null without an
  error, while remove-by-index fails with the out-of-range error and leaves the children
  as they were.
\<close>

theorem container_index_policies:
  assumes "\<not> (0 \<le> i \<and> i < int (length children))"
  shows "container_get_index children i = Inr None
    \<and> container_remove_index children i = (Inl IndexError, children)"
  using assms by (simp add: container_get_index_def container_remove_index_def)

theorem container_index_policies_witness:
  "container_get_index [''A'', ''B'', ''C''] 5 = Inr None
   \<and> container_remove_index [''A'', ''B'', ''C''] 5 = (Inl IndexError, [''A'', ''B'', ''C''])
   \<and> container_get_index [''A'', ''B'', ''C''] (- 1) = Inr None
   \<and> container_remove_index [''A'', ''B'', ''C''] (- 1) = (Inl IndexError, [''A'', ''B'', ''C''])"
  using container_index_policies [of 5 "[''A'', ''B'', ''C'']"]
    container_index_policies [of "- 1" "[''A'', ''B'', ''C'']"]
  by simp

subsection \<open>Leaving out a required method\<close>

lemma protocol_method_raises:
  assumes "m \<in> set (abstract_operations p)"
  shows "map_of (concat (map declares (mro p))) m = Some AbstractRaising"
  using assms by (cases p) (auto simp: abstract_operations_def mro_simps)

lemma omitted_protocol_method_blocks_instantiation:
  assumes "p \<in> set (class_bases c)"
    and "m \<in> set (abstract_operations p)"
    and "map_of (class_namespace c) m = None"
  shows "instantiate_class c = Inl TypeError"
proof -
  from assms have "m \<in> set (class_abstractmethods c)"
    by (auto simp: class_abstractmethods_def)
  then have "class_abstractmethods c \<noteq> []" by auto
  then show ?thesis by (simp add: instantiate_class_def)
qed

text \<open>
  Claim C3 as stated fails: a backend that leaves out a required method is not met with
  \<open>NotImplementedError\<close> when the method is called. A class that lists \<open>WidgetProtocol\<close>
  as base and does not define \<open>_mgui_render\<close>, or a subclass of \<open>BaseApplicationBackend\<close>
  that does not define \<open>_mgui_run\<close>, cannot be instantiated: creating the object raises
  \<open>TypeError\<close> and the call is never reached. The body of
  \<open>BaseApplicationBackend._mgui_run\<close> itself, when it runs, returns \<open>None\<close>.
\<close>

theorem omission_is_type_error_at_construction:
  "construct_and_call
      \<lparr>class_bases = [WidgetProtocol], registered_with = [],
       class_namespace =
         defining [mgui_show_widget, mgui_hide_widget, mgui_get_enabled, mgui_set_enabled,
           mgui_get_parent, mgui_set_parent, mgui_get_native_widget,
           mgui_bind_parent_change_callback]\<rparr>
      mgui_render = Inl TypeError
   \<and> construct_and_call_app [[], BaseApplicationBackend] mgui_run = Inl TypeError
   \<and> call_on_backend_base mgui_run = Inr PNone"
  by (simp add: construct_and_call_def instantiate_class_def class_abstractmethods_def
      defining_def abstract_operations_def mro_simps construct_and_call_app_def
      instantiate_def call_on_backend_base_def BaseApplicationBackend_def)

text \<open>
  Claim C3, amended. A class that lists a protocol among its bases and does not define
  one of the protocol's abstract methods cannot be instantiated, and neither can a class
  derived from \<open>BaseApplicationBackend\<close> that defines one of the seven methods nowhere:
  creating the object raises \<open>TypeError\<close>, before any method is called. The method
  bodies themselves, when they are the ones that run (reached through \<open>super()\<close>), raise
  \<open>NotImplementedError\<close> for every abstract method of every protocol and return \<open>None\<close>
  for the seven methods of \<open>BaseApplicationBackend\<close>.
\<close>

theorem unimplemented_method_call:
  "(p \<in> set (class_bases c) \<and> m \<in> set (abstract_operations p)
      \<and> map_of (class_namespace c) m = None
      \<longrightarrow> construct_and_call c m = Inl TypeError)
   \<and> (n \<in> fst ` set BaseApplicationBackend \<and> (\<forall>ns\<in>set subs. map_of ns n = None)
      \<longrightarrow> construct_and_call_app (subs @ [BaseApplicationBackend]) n = Inl TypeError)
   \<and> (m \<in> set (abstract_operations p)
      \<longrightarrow> call_on_protocol p m = Inl NotImplementedError)
   \<and> (n \<in> fst ` set BaseApplicationBackend \<longrightarrow> call_on_backend_base n = Inr PNone)"
proof (intro conjI impI)
  assume "p \<in> set (class_bases c) \<and> m \<in> set (abstract_operations p)
      \<and> map_of (class_namespace c) m = None"
  then have "instantiate_class c = Inl TypeError"
    using omitted_protocol_method_blocks_instantiation by blast
  then show "construct_and_call c m = Inl TypeError"
    by (simp add: construct_and_call_def)
next
  assume "n \<in> fst ` set BaseApplicationBackend \<and> (\<forall>ns\<in>set subs. map_of ns n = None)"
  then have "instantiate (subs @ [BaseApplicationBackend]) = Inl TypeError"
    using omitted_method_blocks_instantiation by blast
  then show "construct_and_call_app (subs @ [BaseApplicationBackend]) n = Inl TypeError"
    by (simp add: construct_and_call_app_def)
next
  assume "m \<in> set (abstract_operations p)"
  then show "call_on_protocol p m = Inl NotImplementedError"
    by (simp add: call_on_protocol_def protocol_method_raises)
next
  assume "n \<in> fst ` set BaseApplicationBackend"
  then show "call_on_backend_base n = Inr PNone"
    unfolding call_on_backend_base_def by (rule base_method_returns_none)
qed

theorem unimplemented_method_call_witness:
  "construct_and_call
      \<lparr>class_bases = [SliderWidgetProtocol], registered_with = [],
       class_namespace = defining [mgui_show_widget]\<rparr> mgui_set_step = Inl TypeError
   \<and> construct_and_call_app
       [[(mgui_run, MethodDef False (Inr PNone))], BaseApplicationBackend] mgui_start_timer
     = Inl TypeError
   \<and> call_on_protocol ContainerProtocol mgui_get_index = Inl NotImplementedError
   \<and> call_on_backend_base mgui_start_timer = Inr PNone"
proof -
  let ?c = "\<lparr>class_bases = [SliderWidgetProtocol], registered_with = [],
       class_namespace = defining [mgui_show_widget]\<rparr>"
  have 1: "SliderWidgetProtocol \<in> set (class_bases ?c)" by simp
  have 2: "mgui_set_step \<in> set (abstract_operations SliderWidgetProtocol)"
    by (simp add: abstract_operations_def mro_simps)
  have 3: "map_of (class_namespace ?c) mgui_set_step = None"
    by (simp add: defining_def)
  have 4: "mgui_start_timer \<in> fst ` set BaseApplicationBackend"
    by (simp add: base_names)
  have 5: "\<forall>ns\<in>set [[(mgui_run, MethodDef False (Inr PNone))]].
      map_of ns mgui_start_timer = None"
    by simp
  have 6: "mgui_get_index \<in> set (abstract_operations ContainerProtocol)"
    by (simp add: abstract_operations_def mro_simps)
  from 1 2 3 4 5
    unimplemented_method_call [of SliderWidgetProtocol ?c mgui_set_step mgui_start_timer
      "[[(mgui_run, MethodDef False (Inr PNone))]]"]
  have a: "construct_and_call ?c mgui_set_step = Inl TypeError"
    and b: "construct_and_call_app
       [[(mgui_run, MethodDef False (Inr PNone))], BaseApplicationBackend] mgui_start_timer
     = Inl TypeError"
    and d: "call_on_backend_base mgui_start_timer = Inr PNone"
    by simp_all
  from 6 unimplemented_method_call [of ContainerProtocol ?c mgui_get_index mgui_start_timer "[]"]
  have e: "call_on_protocol ContainerProtocol mgui_get_index = Inl NotImplementedError"
    by simp
  from a b d e show ?thesis by simp
qed

end
